theory Spec2Isabelle
  imports Complex_Main "HOL-Library.Sublist"
begin

section \<open>Values exchanged with the backend\<close>

text \<open>
  The dashboard client (\<^verbatim>\<open>Frontend/app.py\<close>) is a script that is run from top to
  bottom on every render. It talks to a backend over HTTP and handles what
  \<^verbatim>\<open>response.json()\<close> returns with the dynamically typed operations of Python
  (\<^verbatim>\<open>in\<close>, \<^verbatim>\<open>.get\<close>, subscription, truth tests). The values are therefore modelled
  by one type of decoded JSON documents. A finite float is carried as mantissa and binary
  exponent; no operation of the script looks into it except the truth test.
\<close>

datatype json =
    JNull
  | JBool bool
  | JInt int
  | JFloat int int
  | JStr string
  | JList "json list"
  | JDict "(string \<times> json) list"

text \<open>
  A raised Python exception, with the text \<^verbatim>\<open>str(e)\<close> gives for it. The clause
  \<^verbatim>\<open>except Exception\<close> catches the first kind only; a bare \<^verbatim>\<open>except:\<close> catches both
  (the second kind stands for \<^verbatim>\<open>KeyboardInterrupt\<close>, \<^verbatim>\<open>SystemExit\<close> and the like).
  Every error of the \<^verbatim>\<open>requests\<close> library, transport errors and JSON decoding errors
  alike, is of the first kind.
\<close>

datatype exn = Exception string | BaseException string

fun str_exn :: "exn \<Rightarrow> string" where
  "str_exn (Exception m) = m"
| "str_exn (BaseException m) = m"

fun is_Exception :: "exn \<Rightarrow> bool" where
  "is_Exception (Exception m) = True"
| "is_Exception (BaseException m) = False"

text \<open>
  What one call of \<^verbatim>\<open>requests.get\<close> or \<^verbatim>\<open>requests.post\<close> gives: a response with its
  status code and with what \<^verbatim>\<open>response.json()\<close> would do (decode the body or raise), or
  an exception raised by the call itself.
\<close>

datatype http = Response int "exn + json" | Raised exn

datatype request =
    GetHealth
  | PostAnalyze string
  | GetStatus json
  | GetDownload json

type_synonym backend = "request \<Rightarrow> http"

subsection \<open>Python operations on decoded JSON\<close>

fun truthy :: "json \<Rightarrow> bool" where
  "truthy JNull = False"
| "truthy (JBool b) = b"
| "truthy (JInt i) = (i \<noteq> 0)"
| "truthy (JFloat m e) = (m \<noteq> 0)"
| "truthy (JStr s) = (s \<noteq> [])"
| "truthy (JList xs) = (xs \<noteq> [])"
| "truthy (JDict kvs) = (kvs \<noteq> [])"

text \<open>\<^verbatim>\<open>key in container\<close> for a string key.\<close>

fun py_contains :: "string \<Rightarrow> json \<Rightarrow> exn + bool" where
  "py_contains k (JDict kvs) = Inr (map_of kvs k \<noteq> None)"
| "py_contains k (JList xs) = Inr (List.member xs (JStr k))"
| "py_contains k (JStr s) = Inr (sublist k s)"
| "py_contains k _ = Inl (Exception ''TypeError: argument is not iterable'')"

text \<open>\<^verbatim>\<open>container.get(key, default)\<close>: only a dict has the method.\<close>

fun py_get :: "json \<Rightarrow> string \<Rightarrow> json \<Rightarrow> exn + json" where
  "py_get (JDict kvs) k d = Inr (case map_of kvs k of None \<Rightarrow> d | Some v \<Rightarrow> v)"
| "py_get _ k d = Inl (Exception ''AttributeError: object has no attribute get'')"

text \<open>\<^verbatim>\<open>container[key]\<close> for a string key.\<close>

fun py_index :: "json \<Rightarrow> string \<Rightarrow> exn + json" where
  "py_index (JDict kvs) k =
     (case map_of kvs k of None \<Rightarrow> Inl (Exception (''KeyError: '' @ k)) | Some v \<Rightarrow> Inr v)"
| "py_index (JList xs) k = Inl (Exception ''TypeError: list indices must be integers'')"
| "py_index (JStr s) k = Inl (Exception ''TypeError: string indices must be integers'')"
| "py_index _ k = Inl (Exception ''TypeError: object is not subscriptable'')"

text \<open>The decimal text of an integer, as an f-string prints it.\<close>

fun str_nat :: "nat \<Rightarrow> string" where
  "str_nat n =
     (if n < 10 then [char_of (48 + n)] else str_nat (n div 10) @ [char_of (48 + n mod 10)])"

declare str_nat.simps [simp del]

definition str_int :: "int \<Rightarrow> string" where
  "str_int i = (if i < 0 then CHR ''-'' # str_nat (nat (- i)) else str_nat (nat i))"

section \<open>The four helper functions\<close>

text \<open>
  \<^verbatim>\<open>check_backend_health\<close>: the comparison of the status code inside \<^verbatim>\<open>try\<close>, and
  \<^verbatim>\<open>False\<close> from the bare \<^verbatim>\<open>except:\<close>.
\<close>

definition check_backend_health :: "backend \<Rightarrow> bool" where
  "check_backend_health b =
     (case b GetHealth of
        Response status_code body \<Rightarrow> status_code = 200
      | Raised e \<Rightarrow> False)"

text \<open>
  The other three share one shape: the \<^verbatim>\<open>try\<close> block returns the decoded body on
  status 200 and a fixed error dictionary otherwise; \<^verbatim>\<open>except Exception as e\<close> turns an
  exception of the block into an error dictionary with \<^verbatim>\<open>str(e)\<close>, and lets anything
  that is not an \<^verbatim>\<open>Exception\<close> pass. The result is \<open>Inr\<close> of the returned value, or
  \<open>Inl\<close> of an exception that leaves the function.
\<close>

definition analyze_repository_try :: "backend \<Rightarrow> string \<Rightarrow> exn + json" where
  "analyze_repository_try b repo_url' =
     (case b (PostAnalyze repo_url') of
        Raised e \<Rightarrow> Inl e
      | Response status_code body \<Rightarrow>
          if status_code = 200 then body
          else Inr (JDict [(''error'',
                 JStr (''Failed with status code: '' @ str_int status_code))]))"

definition analyze_repository :: "backend \<Rightarrow> string \<Rightarrow> exn + json" where
  "analyze_repository b repo_url' =
     (case analyze_repository_try b repo_url' of
        Inr v \<Rightarrow> Inr v
      | Inl e \<Rightarrow>
          if is_Exception e then Inr (JDict [(''error'', JStr (str_exn e))]) else Inl e)"

definition check_task_status_try :: "backend \<Rightarrow> json \<Rightarrow> exn + json" where
  "check_task_status_try b tid =
     (case b (GetStatus tid) of
        Raised e \<Rightarrow> Inl e
      | Response status_code body \<Rightarrow>
          if status_code = 200 then body
          else Inr (JDict [(''status'', JStr ''error''),
                           (''error'', JStr ''Failed to check status'')]))"

definition check_task_status :: "backend \<Rightarrow> json \<Rightarrow> exn + json" where
  "check_task_status b tid =
     (case check_task_status_try b tid of
        Inr v \<Rightarrow> Inr v
      | Inl e \<Rightarrow>
          if is_Exception e
          then Inr (JDict [(''status'', JStr ''error''), (''error'', JStr (str_exn e))])
          else Inl e)"

definition download_documentation_try :: "backend \<Rightarrow> json \<Rightarrow> exn + json" where
  "download_documentation_try b tid =
     (case b (GetDownload tid) of
        Raised e \<Rightarrow> Inl e
      | Response status_code body \<Rightarrow>
          if status_code = 200 then body
          else Inr (JDict [(''error'', JStr ''Failed to download documentation'')]))"

definition download_documentation :: "backend \<Rightarrow> json \<Rightarrow> exn + json" where
  "download_documentation b tid =
     (case download_documentation_try b tid of
        Inr v \<Rightarrow> Inr v
      | Inl e \<Rightarrow>
          if is_Exception e then Inr (JDict [(''error'', JStr (str_exn e))]) else Inl e)"

text \<open>A dictionary with an \<^verbatim>\<open>"error"\<close> key: the error shape of the three operations.\<close>

fun error_shaped :: "json \<Rightarrow> bool" where
  "error_shaped (JDict kvs) = (map_of kvs ''error'' \<noteq> None)"
| "error_shaped _ = False"

section \<open>One run of the script\<close>

text \<open>
  Streamlit runs the script once per render. What a run does is recorded as a list of
  events in the order of the calls: every HTTP request a helper function issues, every
  display call of the page, and the call \<^verbatim>\<open>time.sleep\<close>. Three display calls get a
  value of the backend that Streamlit checks, and raise when it rejects the value:
  \<^verbatim>\<open>st.progress\<close>, \<^verbatim>\<open>st.metric\<close> and \<^verbatim>\<open>st.download_button\<close>. The other
  display calls get a literal, a string built by an f-string, or a value that Streamlit
  turns into text whatever it is (\<^verbatim>\<open>st.markdown\<close>, \<^verbatim>\<open>st.code\<close>, \<^verbatim>\<open>st.json\<close>);
  each of them records its event and returns. Layout calls (columns, containers, the page
  configuration and the style sheet) record nothing, and the static texts are given
  without their pictographs and markup. A text built by an f-string keeps the
  interpolated values as they are.
\<close>

datatype frag = Lit string | Val json | ValComma json

type_synonym message = "frag list"

datatype progress_arg = Whole int | Over100 json

datatype event =
    Request request
  | StMarkdown json
  | StHeader string
  | StSubheader string
  | StSuccess message
  | StError message
  | StInfo message
  | StWarning message
  | StProgress progress_arg
  | StSelectbox string "string list"
  | StTextInput string json
  | StButton string
  | StSpinner string
  | StTabs "string list"
  | StCode json
  | StDownloadButton json message
  | StMetric string message
  | StJson json
  | Sleep nat

text \<open>
  How a run, or a part of it, ends: it goes on to the next statement, it calls
  \<^verbatim>\<open>st.rerun()\<close> (which stops the run and starts the next one), or an exception
  that nothing catches stops it.
\<close>

datatype ctl = Continue | Rerun | Crash exn

text \<open>The four fields of \<^verbatim>\<open>st.session_state\<close> that the script uses.\<close>

record session =
  task_id :: json
  status :: json
  documentation :: json
  repo_url :: json

text \<open>
  Before the first run the session state holds none of the four keys; each
  \<^verbatim>\<open>if key not in st.session_state\<close> gives a missing key its initial value and leaves
  a present one alone.
\<close>

definition init_session :: "(string \<rightharpoonup> json) \<Rightarrow> session" where
  "init_session raw =
     \<lparr> task_id = (case raw ''task_id'' of None \<Rightarrow> JNull | Some v \<Rightarrow> v),
       status = (case raw ''status'' of None \<Rightarrow> JNull | Some v \<Rightarrow> v),
       documentation = (case raw ''documentation'' of None \<Rightarrow> JNull | Some v \<Rightarrow> v),
       repo_url = (case raw ''repo_url'' of None \<Rightarrow> JStr [] | Some v \<Rightarrow> v) \<rparr>"

text \<open>The session state a run leaves for the next one.\<close>

definition stored :: "session \<Rightarrow> (string \<rightharpoonup> json)" where
  "stored s =
     [''task_id'' \<mapsto> task_id s, ''status'' \<mapsto> status s,
      ''documentation'' \<mapsto> documentation s, ''repo_url'' \<mapsto> repo_url s]"

text \<open>
  What the surroundings give a run: the answer of the backend at each of the five places
  where a request is issued (each place is passed at most once in a run, and the backend
  may answer the two status requests of one run differently), what the widgets return
  in this run (the chosen entry of the select box, the text that \<^verbatim>\<open>st.text_input\<close>
  gives back, and for each button whether it was pressed), and the time stamp \<^verbatim>\<open>datetime.now().strftime('%Y%m%d_%H%M%S')\<close>.
\<close>

datatype site = AtSidebar | AtSubmit | AtStatusPanel | AtResults | AtDownload

record env =
  backend_at :: "site \<Rightarrow> backend"
  selected_example :: string
  use_example_clicked :: bool
  url_text :: string
  analyze_clicked :: bool
  refresh_clicked :: bool
  now :: string

type_synonym step = "event list \<times> session \<times> ctl"

definition events_of :: "step \<Rightarrow> event list" where
  "events_of r = fst r"

definition session_of :: "step \<Rightarrow> session" where
  "session_of r = fst (snd r)"

definition ctl_of :: "step \<Rightarrow> ctl" where
  "ctl_of r = snd (snd r)"

text \<open>Events recorded before a part of the run.\<close>

definition emit :: "event list \<Rightarrow> step \<Rightarrow> step" where
  "emit evs r = (evs @ events_of r, session_of r, ctl_of r)"

text \<open>An operation that may raise: the exception stops the run where it stands.\<close>

definition attempt :: "session \<Rightarrow> exn + 'a \<Rightarrow> ('a \<Rightarrow> step) \<Rightarrow> step" where
  "attempt s r k = (case r of Inl e \<Rightarrow> ([], s, Crash e) | Inr v \<Rightarrow> k v)"

text \<open>One part of the script after another: the second runs only if the first goes on.\<close>

definition seq :: "step \<Rightarrow> (session \<Rightarrow> step) \<Rightarrow> step" where
  "seq r g = (case ctl_of r of Continue \<Rightarrow> emit (events_of r) (g (session_of r)) | _ \<Rightarrow> r)"

subsection \<open>Display calls that check their argument\<close>

text \<open>
  \<^verbatim>\<open>progress_pct / 100\<close> is a float. Its value is taken as the exact quotient: the
  rounding of the division and of the comparisons below is not modelled, so a float
  within rounding distance of a bound is outside the model.
\<close>

fun quotient_by_100 :: "json \<Rightarrow> rat" where
  "quotient_by_100 (JInt i) = of_int i / 100"
| "quotient_by_100 (JBool b) = (if b then 1 / 100 else 0)"
| "quotient_by_100 (JFloat m e) =
     (if 0 \<le> e then of_int m * 2 ^ nat e else of_int m / 2 ^ nat (- e)) / 100"
| "quotient_by_100 _ = 0"

text \<open>
  \<^verbatim>\<open>math.isclose(a, b, rel_tol=1e-9, abs_tol=1e-9)\<close>, and the test
  \<^verbatim>\<open>_check_float_between(value, 0.0, 1.0)\<close> that \<^verbatim>\<open>st.progress\<close> applies to a float:
  inside the bounds, or close to one of them.
\<close>

definition isclose :: "rat \<Rightarrow> rat \<Rightarrow> bool" where
  "isclose a b = (\<bar>a - b\<bar> \<le> max (max \<bar>a\<bar> \<bar>b\<bar> / 10 ^ 9) (1 / 10 ^ 9))"

definition check_float_between :: "rat \<Rightarrow> bool" where
  "check_float_between v = ((0 \<le> v \<and> v \<le> 1) \<or> isclose v 0 \<or> isclose v 1)"

text \<open>
  What Streamlit does with the argument of the three calls, \<open>None\<close> when it accepts
  it. \<^verbatim>\<open>st.progress\<close> takes an \<^verbatim>\<open>int\<close> from 0 to 100 or a float that passes the test
  above; \<^verbatim>\<open>st.metric\<close> takes a value that is \<^verbatim>\<open>None\<close>, an \<^verbatim>\<open>int\<close> (a \<^verbatim>\<open>bool\<close> is
  one), a \<^verbatim>\<open>float\<close> or a \<^verbatim>\<open>str\<close>; \<^verbatim>\<open>st.download_button\<close> takes \<^verbatim>\<open>str\<close> data
  (of the values JSON can give).
\<close>

fun st_progress_check :: "progress_arg \<Rightarrow> exn option" where
  "st_progress_check (Whole n) =
     (if 0 \<le> n \<and> n \<le> 100 then None
      else Some (Exception ''StreamlitAPIException: Progress Value has invalid value [0, 100]''))"
| "st_progress_check (Over100 v) =
     (if check_float_between (quotient_by_100 v) then None
      else Some (Exception
        ''StreamlitAPIException: Progress Value has invalid value [0.0, 1.0]''))"

fun st_metric_check :: "json \<Rightarrow> exn option" where
  "st_metric_check (JList xs) = Some (Exception ''TypeError: value is not an accepted type'')"
| "st_metric_check (JDict kvs) = Some (Exception ''TypeError: value is not an accepted type'')"
| "st_metric_check _ = None"

fun st_download_button_check :: "json \<Rightarrow> exn option" where
  "st_download_button_check (JStr d) = None"
| "st_download_button_check _ = Some (Exception ''RuntimeError: Invalid binary data format'')"

text \<open>A display call with its check: it records its event, or it raises and records nothing.\<close>

definition st_call :: "session \<Rightarrow> exn option \<Rightarrow> event \<Rightarrow> step" where
  "st_call s check ev =
     (case check of None \<Rightarrow> ([ev], s, Continue) | Some e \<Rightarrow> ([], s, Crash e))"

subsection \<open>Side bar\<close>

definition example_repos :: "string list" where
  "example_repos =
     [''https://github.com/jaseci-labs/jaclang'',
      ''https://github.com/fastapi/fastapi'',
      ''https://github.com/pallets/flask'']"

definition sidebar :: "env \<Rightarrow> session \<Rightarrow> step" where
  "sidebar env s =
     emit ([StHeader ''Settings'', Request GetHealth] @
           (if check_backend_health (backend_at env AtSidebar)
            then [StSuccess [Lit ''Backend is running'']]
            else [StError [Lit ''Backend is not responding''],
                  StInfo [Lit ''Please start the backend server'']]) @
           [StMarkdown (JStr ''---''), StSubheader ''About'',
            StInfo [Lit ''Codebase Genius is a multi-agent system''],
            StMarkdown (JStr ''---''), StSubheader ''Examples'',
            StSelectbox ''Try an example:'' (''Select an example...'' # example_repos)])
       (if selected_example env \<noteq> ''Select an example...''
        then emit [StButton ''Use This Example'']
               (if use_example_clicked env
                then ([], s\<lparr>repo_url := JStr (selected_example env)\<rparr>, Continue)
                else ([], s, Continue))
        else ([], s, Continue))"

subsection \<open>The form and the Analyze button\<close>

text \<open>The \<^verbatim>\<open>else\<close> branch of the button handler: the submission.\<close>

definition submit :: "env \<Rightarrow> session \<Rightarrow> step" where
  "submit env s =
     emit [StSpinner ''Starting analysis...'', Request (PostAnalyze (url_text env))]
       (attempt s (analyze_repository (backend_at env AtSubmit) (url_text env)) (\<lambda>result.
        attempt s (py_contains ''error'' result) (\<lambda>has_error.
          if has_error
          then attempt s (py_index result ''error'') (\<lambda>err.
                 ([StError [Lit ''Error: '', Val err]], s, Continue))
          else attempt s (py_get result ''task_id'' JNull) (\<lambda>tid.
                 ([StSuccess [Lit ''Analysis started! Task ID: '', Val tid]],
                  s\<lparr>task_id := tid, status := JStr ''processing'',
                    repo_url := JStr (url_text env)\<rparr>,
                  Rerun)))))"

text \<open>The body of \<^verbatim>\<open>if st.button("Analyze Repository")\<close>.\<close>

definition analyze_button_handler :: "env \<Rightarrow> session \<Rightarrow> step" where
  "analyze_button_handler env s =
     (if url_text env = [] then ([StError [Lit ''Please enter a repository URL'']], s, Continue)
      else if \<not> prefix ''https://github.com/'' (url_text env)
      then ([StError [Lit ''Please enter a valid GitHub URL'']], s, Continue)
      else submit env s)"

definition generate_panel :: "env \<Rightarrow> session \<Rightarrow> step" where
  "generate_panel env s =
     emit [StHeader ''Generate Documentation'',
           StTextInput ''GitHub Repository URL'' (repo_url s),
           StButton ''Analyze Repository'']
       (if analyze_clicked env then analyze_button_handler env s else ([], s, Continue))"

subsection \<open>Status panel\<close>

text \<open>\<^verbatim>\<open>status_data.get("progress", {}).get(key, default)\<close>\<close>

definition read_progress :: "json \<Rightarrow> string \<Rightarrow> json \<Rightarrow> exn + json" where
  "read_progress status_data k d =
     (case py_get status_data ''progress'' (JDict []) of
        Inl e \<Rightarrow> Inl e
      | Inr progress \<Rightarrow> py_get progress k d)"

text \<open>
  \<^verbatim>\<open>progress_pct / 100\<close>: defined on numbers (and booleans) only, and an integer whose
  quotient lies beyond the range of a float raises \<^verbatim>\<open>OverflowError\<close>. The bound is the
  least magnitude that rounds to nearest beyond the largest float.
\<close>

definition float_overflow :: int where
  "float_overflow = 2 ^ 1024 - 2 ^ 970"

fun py_div100 :: "json \<Rightarrow> exn + progress_arg" where
  "py_div100 (JInt i) =
     (if 100 * float_overflow \<le> \<bar>i\<bar>
      then Inl (Exception ''OverflowError: integer division result too large for a float'')
      else Inr (Over100 (JInt i)))"
| "py_div100 (JFloat m e) = Inr (Over100 (JFloat m e))"
| "py_div100 (JBool b) = Inr (Over100 (JBool b))"
| "py_div100 _ = Inl (Exception ''TypeError: unsupported operand type(s) for /'')"

definition status_display :: "session \<Rightarrow> json \<Rightarrow> json \<Rightarrow> json \<Rightarrow> step" where
  "status_display s current_status progress_pct current_step =
     (if current_status = JStr ''completed''
      then ([StSuccess [Lit ''Completed!''], StProgress (Whole 100)], s, Continue)
      else if current_status = JStr ''error''
      then ([StError [Lit ''Error occurred''], StProgress (Whole 0)], s, Continue)
      else if current_status = JStr ''processing''
      then emit [StInfo [Lit ''Processing: '', Val current_step]]
             (attempt s (py_div100 progress_pct) (\<lambda>v.
                st_call s (st_progress_check v) (StProgress v)))
      else ([StWarning [Lit ''Status: '', Val current_status], StProgress (Whole 0)],
            s, Continue))"

text \<open>The body of \<^verbatim>\<open>if current_status not in ["completed", "error"]\<close>.\<close>

definition auto_refresh :: "env \<Rightarrow> session \<Rightarrow> step" where
  "auto_refresh env s =
     emit [StButton ''Refresh Status'']
       (if refresh_clicked env then ([], s, Rerun) else ([Sleep 3], s, Rerun))"

definition status_panel :: "env \<Rightarrow> session \<Rightarrow> step" where
  "status_panel env s =
     (if truthy (task_id s) then
        emit [StHeader ''Status'', Request (GetStatus (task_id s))]
          (attempt s (check_task_status (backend_at env AtStatusPanel) (task_id s))
             (\<lambda>status_data.
           attempt s (read_progress status_data ''status'' (JStr ''unknown''))
             (\<lambda>current_status.
           attempt s (read_progress status_data ''progress_percentage'' (JInt 0))
             (\<lambda>progress_pct.
           attempt s (read_progress status_data ''current_step'' (JStr []))
             (\<lambda>current_step.
           seq (status_display s current_status progress_pct current_step) (\<lambda>s.
             if current_status \<notin> set [JStr ''completed'', JStr ''error'']
             then auto_refresh env s
             else ([], s, Continue)))))))
      else ([], s, Continue))"

subsection \<open>Results section\<close>

text \<open>The format specification \<^verbatim>\<open>:,\<close> of an f-string: defined on numbers only.\<close>

fun py_format_comma :: "json \<Rightarrow> exn + frag" where
  "py_format_comma (JInt i) = Inr (ValComma (JInt i))"
| "py_format_comma (JFloat m e) = Inr (ValComma (JFloat m e))"
| "py_format_comma (JBool b) = Inr (ValComma (JBool b))"
| "py_format_comma (JStr s) = Inl (Exception ''ValueError: Cannot specify , with s'')"
| "py_format_comma _ = Inl (Exception ''TypeError: unsupported format string'')"

definition stats_tab :: "session \<Rightarrow> json \<Rightarrow> step" where
  "stats_tab s status_data =
     attempt s (read_progress status_data ''result'' (JDict [])) (\<lambda>result.
     attempt s (py_get result ''stats'' (JDict [])) (\<lambda>stats.
     attempt s (py_get stats ''total_files'' (JInt 0)) (\<lambda>total_files.
     seq (st_call s (st_metric_check total_files)
            (StMetric ''Total Files'' [Val total_files])) (\<lambda>s.
     attempt s (py_get stats ''total_entities'' (JInt 0)) (\<lambda>total_entities.
     seq (st_call s (st_metric_check total_entities)
            (StMetric ''Total Entities'' [Val total_entities])) (\<lambda>s.
     attempt s (py_get stats ''documentation_size'' (JInt 0)) (\<lambda>documentation_size.
     attempt s (py_format_comma documentation_size) (\<lambda>shown.
     emit [StMetric ''Doc Size'' [shown, Lit '' chars'']]
    (attempt s (py_get result ''repo_info'' JNull) (\<lambda>info.
       if truthy info
       then emit [StSubheader ''Repository Information'']
              (attempt s (py_index result ''repo_info'') (\<lambda>repo_info.
                 ([StJson repo_info], s, Continue)))
       else ([], s, Continue)))))))))))"

definition show_documentation :: "env \<Rightarrow> session \<Rightarrow> json \<Rightarrow> json \<Rightarrow> step" where
  "show_documentation env s status_data doc =
     emit [StTabs [''Preview'', ''Raw Markdown'', ''Stats''],
           StMarkdown doc,
           StCode doc]
       (seq (st_call s (st_download_button_check doc)
               (StDownloadButton doc [Lit ''documentation_'', Lit (now env), Lit ''.md'']))
          (\<lambda>s. stats_tab s status_data))"

definition results_section :: "env \<Rightarrow> session \<Rightarrow> step" where
  "results_section env s =
     (if truthy (task_id s) then
        emit [StMarkdown (JStr ''---''), StHeader ''Documentation'',
              Request (GetStatus (task_id s))]
          (attempt s (check_task_status (backend_at env AtResults) (task_id s))
             (\<lambda>status_data.
           attempt s (read_progress status_data ''status'' (JStr ''unknown''))
             (\<lambda>current_status.
           if current_status = JStr ''completed'' then
             emit [Request (GetDownload (task_id s))]
               (attempt s (download_documentation (backend_at env AtDownload) (task_id s))
                  (\<lambda>doc_data.
                attempt s (py_contains ''error'' doc_data) (\<lambda>has_error.
                  if \<not> has_error then
                    attempt s (py_get doc_data ''doc_content'' (JStr [])) (\<lambda>doc.
                      if truthy doc then show_documentation env s status_data doc
                      else ([StWarning [Lit ''Documentation is empty or not yet generated.'']],
                            s, Continue))
                  else
                    attempt s (py_index doc_data ''error'') (\<lambda>err.
                      ([StError [Lit ''Error downloading documentation: '', Val err]],
                       s, Continue)))))
           else if current_status = JStr ''error'' then
             ([StError [Lit ''An error occurred during analysis. Please try again.'']],
              s, Continue)
           else if current_status = JStr ''processing'' then
             ([StInfo [Lit ''Analysis in progress... Please wait.'']], s, Continue)
           else ([StInfo [Lit ''Waiting for analysis to start...'']], s, Continue))))
      else ([], s, Continue))"

subsection \<open>The whole run\<close>

definition page_header :: "event list" where
  "page_header =
     [StMarkdown (JStr ''Codebase Genius''),
      StMarkdown (JStr ''AI-Powered Automatic Code Documentation Generator'')]"

definition footer :: "session \<Rightarrow> step" where
  "footer s =
     ([StMarkdown (JStr ''---''),
       StMarkdown (JStr ''Built with love using Jac and Streamlit'')], s, Continue)"

definition render_from :: "env \<Rightarrow> session \<Rightarrow> step" where
  "render_from env s =
     seq (seq (seq (seq (seq (page_header, s, Continue)
       (sidebar env)) (generate_panel env)) (status_panel env)) (results_section env)) footer"

definition render :: "env \<Rightarrow> (string \<rightharpoonup> json) \<Rightarrow> step" where
  "render env raw = render_from env (init_session raw)"

text \<open>The requests of a run, in order.\<close>

fun requests_of :: "event list \<Rightarrow> request list" where
  "requests_of [] = []"
| "requests_of (Request r # evs) = r # requests_of evs"
| "requests_of (e # evs) = requests_of evs"

fun is_status_request :: "request \<Rightarrow> bool" where
  "is_status_request (GetStatus t) = True"
| "is_status_request _ = False"

fun is_download_request :: "request \<Rightarrow> bool" where
  "is_download_request (GetDownload t) = True"
| "is_download_request _ = False"

fun is_analyze_request :: "request \<Rightarrow> bool" where
  "is_analyze_request (PostAnalyze u) = True"
| "is_analyze_request _ = False"

fun is_sleep :: "event \<Rightarrow> bool" where
  "is_sleep (Sleep n) = True"
| "is_sleep _ = False"

text \<open>
  The status a poll gives the page: the two statements
  \<^verbatim>\<open>status_data = check_task_status(task_id)\<close> and
  \<^verbatim>\<open>current_status = status_data.get("progress", {}).get("status", "unknown")\<close>
  that the status panel and the results section both start with.
\<close>

definition poll_status :: "backend \<Rightarrow> json \<Rightarrow> exn + json" where
  "poll_status b tid =
     (case check_task_status b tid of
        Inl e \<Rightarrow> Inl e
      | Inr status_data \<Rightarrow> read_progress status_data ''status'' (JStr ''unknown''))"

text \<open>A call that failed: a response with a status other than 200, or a raised \<^verbatim>\<open>Exception\<close>.\<close>

fun failed :: "http \<Rightarrow> bool" where
  "failed (Response status_code body) = (status_code \<noteq> 200)"
| "failed (Raised e) = is_Exception e"

text \<open>The dictionary \<^verbatim>\<open>{"status": "error", "error": msg}\<close>.\<close>

definition status_error :: "string \<Rightarrow> json" where
  "status_error msg = JDict [(''status'', JStr ''error''), (''error'', JStr msg)]"

fun crashed :: "ctl \<Rightarrow> bool" where
  "crashed (Crash e) = True"
| "crashed _ = False"

text \<open>Several runs one after another, each starting from the session state the last one left.\<close>

fun run_all :: "env list \<Rightarrow> (string \<rightharpoonup> json) \<Rightarrow> (string \<rightharpoonup> json)" where
  "run_all [] raw = raw"
| "run_all (env # envs) raw = run_all envs (stored (session_of (render env raw)))"

fun is_download_button :: "event \<Rightarrow> bool" where
  "is_download_button (StDownloadButton d name) = True"
| "is_download_button _ = False"

text \<open>The page with the time stamp taken out of the file name of the download button.\<close>

fun without_stamp :: "event \<Rightarrow> event" where
  "without_stamp (StDownloadButton d name) = StDownloadButton d []"
| "without_stamp e = e"

subsection \<open>Concrete runs\<close>

text \<open>
  A backend that answers every request with status 200: a task whose progress record
  carries the given status, and a short document.
\<close>

definition progress_record :: "string \<Rightarrow> json" where
  "progress_record st =
     JDict [(''progress'',
       JDict [(''status'', JStr st), (''progress_percentage'', JInt 40),
              (''current_step'', JStr ''parsing'')])]"

definition example_backend :: "string \<Rightarrow> backend" where
  "example_backend st r =
     (case r of
        GetHealth \<Rightarrow> Response 200 (Inr (JDict []))
      | PostAnalyze u \<Rightarrow> Response 200 (Inr (JDict [(''task_id'', JStr ''t1'')]))
      | GetStatus t \<Rightarrow> Response 200 (Inr (progress_record st))
      | GetDownload t \<Rightarrow> Response 200 (Inr (JDict [(''doc_content'', JStr ''# Widgets'')])))"

text \<open>A backend that is down: the status request is refused, the others answer 500.\<close>

definition refusing :: backend where
  "refusing r =
     (case r of
        GetStatus t \<Rightarrow> Raised (Exception ''Connection refused'')
      | _ \<Rightarrow> Response 500 (Inl (Exception ''Expecting value'')))"

definition example_env :: "backend \<Rightarrow> env" where
  "example_env b =
     \<lparr> backend_at = (\<lambda>site. b),
       selected_example = ''Select an example...'',
       use_example_clicked = False,
       url_text = ''https://github.com/acme/widgets'',
       analyze_clicked = False,
       refresh_clicked = False,
       now = ''20260101_120000'' \<rparr>"

definition example_session :: session where
  "example_session =
     \<lparr> task_id = JStr ''t1'', status = JStr ''processing'', documentation = JNull,
       repo_url = JStr ''https://github.com/acme/widgets'' \<rparr>"

section \<open>Basic facts about runs\<close>

lemma proj_simps [simp]:
  "events_of (a, b, c) = a" "session_of (a, b, c) = b" "ctl_of (a, b, c) = c"
  by (simp_all add: events_of_def session_of_def ctl_of_def)

lemma step_eqI:
  "events_of r = events_of r' \<Longrightarrow> session_of r = session_of r' \<Longrightarrow> ctl_of r = ctl_of r'
   \<Longrightarrow> r = r'"
  by (cases r; cases r') simp

lemma emit_simps [simp]:
  "events_of (emit evs r) = evs @ events_of r"
  "session_of (emit evs r) = session_of r"
  "ctl_of (emit evs r) = ctl_of r"
  by (simp_all add: emit_def)

lemma attempt_simps [simp]:
  "attempt s (Inl e) k = ([], s, Crash e)"
  "attempt s (Inr v) k = k v"
  by (simp_all add: attempt_def)

lemma seq_projs:
  "events_of (seq r g) =
     (if ctl_of r = Continue then events_of r @ events_of (g (session_of r)) else events_of r)"
  "session_of (seq r g) =
     (if ctl_of r = Continue then session_of (g (session_of r)) else session_of r)"
  "ctl_of (seq r g) = (if ctl_of r = Continue then ctl_of (g (session_of r)) else ctl_of r)"
  by (cases "ctl_of r"; simp add: seq_def)+

lemma session_of_attempt: "(\<And>v. session_of (k v) = s) \<Longrightarrow> session_of (attempt s r k) = s"
  by (cases r) simp_all

lemma st_call_simps [simp]:
  "session_of (st_call s c ev) = s"
  "events_of (st_call s c ev) = (if c = None then [ev] else [])"
  "ctl_of (st_call s c ev) = Continue \<longleftrightarrow> c = None"
  "ctl_of (st_call s c ev) \<noteq> Rerun"
  "crashed (ctl_of (st_call s c ev)) \<longleftrightarrow> c \<noteq> None"
  by (cases c; simp add: st_call_def)+

lemma st_call_ctl:
  "ctl_of (st_call s c ev) = (case c of None \<Rightarrow> Continue | Some e \<Rightarrow> Crash e)"
  by (simp add: st_call_def split: option.splits)

lemma session_of_status_display [simp]:
  "session_of (status_display s a b c) = s"
  by (simp add: status_display_def session_of_attempt)

lemma session_of_auto_refresh [simp]: "session_of (auto_refresh env s) = s"
  by (simp add: auto_refresh_def)

lemma session_of_status_panel [simp]: "session_of (status_panel env s) = s"
  by (simp add: status_panel_def session_of_attempt seq_projs)

lemma session_of_stats_tab [simp]: "session_of (stats_tab s d) = s"
  by (simp add: stats_tab_def session_of_attempt seq_projs)

lemma session_of_results_section [simp]: "session_of (results_section env s) = s"
  by (simp add: results_section_def show_documentation_def session_of_attempt seq_projs)

lemma session_of_footer [simp]: "session_of (footer s) = s"
  by (simp add: footer_def)

lemma ctl_of_footer [simp]: "ctl_of (footer s) = Continue"
  by (simp add: footer_def)

lemma ctl_of_sidebar [simp]: "ctl_of (sidebar env s) = Continue"
  by (simp add: sidebar_def)

lemma session_of_sidebar:
  "session_of (sidebar env s) =
     (if selected_example env \<noteq> ''Select an example...'' \<and> use_example_clicked env
      then s\<lparr>repo_url := JStr (selected_example env)\<rparr> else s)"
  by (simp add: sidebar_def)

lemma sidebar_keeps [simp]:
  "task_id (session_of (sidebar env s)) = task_id s"
  "status (session_of (sidebar env s)) = status s"
  "documentation (session_of (sidebar env s)) = documentation s"
  by (simp_all add: session_of_sidebar)

lemma requests_of_append [simp]: "requests_of (xs @ ys) = requests_of xs @ requests_of ys"
  by (induction xs rule: requests_of.induct) simp_all

lemma requests_of_sidebar [simp]: "requests_of (events_of (sidebar env s)) = [GetHealth]"
  by (simp add: sidebar_def)

lemma str_int_500: "str_int 500 = ''500''"
  by code_simp

lemma init_session_stored [simp]: "init_session (stored s) = s"
  by (simp add: init_session_def stored_def)

text \<open>The button handler, case by case.\<close>

lemma handler_invalid:
  "url_text env = [] \<or> \<not> prefix ''https://github.com/'' (url_text env) \<Longrightarrow>
   analyze_button_handler env s =
     ([StError [Lit (if url_text env = [] then ''Please enter a repository URL''
                     else ''Please enter a valid GitHub URL'')]], s, Continue)"
  by (auto simp: analyze_button_handler_def)

lemma submit_error:
  "analyze_repository (backend_at env AtSubmit) (url_text env) = Inr (JDict kvs) \<Longrightarrow>
   map_of kvs ''error'' = Some v \<Longrightarrow>
   submit env s =
     ([StSpinner ''Starting analysis...'', Request (PostAnalyze (url_text env)),
       StError [Lit ''Error: '', Val v]], s, Continue)"
  by (simp add: submit_def emit_def)

lemma submit_started:
  "analyze_repository (backend_at env AtSubmit) (url_text env) = Inr (JDict kvs) \<Longrightarrow>
   map_of kvs ''error'' = None \<Longrightarrow>
   submit env s =
     ([StSpinner ''Starting analysis...'', Request (PostAnalyze (url_text env)),
       StSuccess [Lit ''Analysis started! Task ID: '',
                  Val (case map_of kvs ''task_id'' of None \<Rightarrow> JNull | Some t \<Rightarrow> t)]],
      s\<lparr>task_id := (case map_of kvs ''task_id'' of None \<Rightarrow> JNull | Some t \<Rightarrow> t),
        status := JStr ''processing'', repo_url := JStr (url_text env)\<rparr>,
      Rerun)"
  by (simp add: submit_def emit_def)

lemma documentation_submit [simp]: "documentation (session_of (submit env s)) = documentation s"
  by (simp add: submit_def attempt_def split: sum.splits)

lemma documentation_generate_panel [simp]:
  "documentation (session_of (generate_panel env s)) = documentation s"
  by (simp add: generate_panel_def analyze_button_handler_def)

lemma generate_panel_Continue:
  "ctl_of (generate_panel env s) = Continue \<Longrightarrow> session_of (generate_panel env s) = s"
  by (auto simp: generate_panel_def analyze_button_handler_def submit_def attempt_def
      split: if_splits sum.splits)

lemma documentation_render_from [simp]:
  "documentation (session_of (render_from env s)) = documentation s"
  by (simp add: render_from_def seq_projs)


lemma requests_of_attempt_none:
  "(\<And>v. requests_of (events_of (k v)) = []) \<Longrightarrow> requests_of (events_of (attempt s r k)) = []"
  by (cases r) simp_all

lemma requests_of_stats_tab [simp]: "requests_of (events_of (stats_tab s d)) = []"
  by (simp add: stats_tab_def requests_of_attempt_none seq_projs)

lemma requests_of_status_display [simp]:
  "requests_of (events_of (status_display s a b c)) = []"
  by (simp add: status_display_def requests_of_attempt_none)

lemma requests_of_auto_refresh [simp]: "requests_of (events_of (auto_refresh env s)) = []"
  by (simp add: auto_refresh_def)

lemma requests_of_footer [simp]: "requests_of (events_of (footer s)) = []"
  by (simp add: footer_def)

lemma requests_of_status_panel:
  "requests_of (events_of (status_panel env s)) =
     (if truthy (task_id s) then [GetStatus (task_id s)] else [])"
  by (simp add: status_panel_def requests_of_attempt_none seq_projs)

lemma analyze_requests_status_panel [simp]:
  "filter is_analyze_request (requests_of (events_of (status_panel env s))) = []"
  by (simp add: requests_of_status_panel)

lemma requests_of_results_section:
  "requests_of (events_of (results_section env s)) =
     (if truthy (task_id s) then
        GetStatus (task_id s) #
        (if poll_status (backend_at env AtResults) (task_id s) = Inr (JStr ''completed'')
         then [GetDownload (task_id s)] else [])
      else [])"
  by (simp add: results_section_def show_documentation_def poll_status_def
        requests_of_attempt_none attempt_def seq_projs split: sum.splits)

lemma analyze_requests_results_section [simp]:
  "filter is_analyze_request (requests_of (events_of (results_section env s))) = []"
  by (simp add: requests_of_results_section)

lemma generate_panel_submit:
  "analyze_clicked env \<Longrightarrow> url_text env \<noteq> [] \<Longrightarrow>
   prefix ''https://github.com/'' (url_text env) \<Longrightarrow>
   generate_panel env s =
     emit [StHeader ''Generate Documentation'',
           StTextInput ''GitHub Repository URL'' (repo_url s),
           StButton ''Analyze Repository''] (submit env s)"
  by (simp add: generate_panel_def analyze_button_handler_def)

lemma filter_attempt_none:
  "(\<And>v. filter P (events_of (k v)) = []) \<Longrightarrow> filter P (events_of (attempt s r k)) = []"
  by (cases r) simp_all

lemma ctl_attempt_no_rerun:
  "(\<And>v. ctl_of (k v) \<noteq> Rerun) \<Longrightarrow> ctl_of (attempt s r k) \<noteq> Rerun"
  by (cases r) simp_all

lemma sleeps_sidebar [simp]: "filter is_sleep (events_of (sidebar env s)) = []"
  by (simp add: sidebar_def)

lemma sleeps_submit [simp]: "filter is_sleep (events_of (submit env s)) = []"
  by (simp add: submit_def filter_attempt_none)

lemma sleeps_generate_panel [simp]: "filter is_sleep (events_of (generate_panel env s)) = []"
  by (simp add: generate_panel_def analyze_button_handler_def)

lemma sleeps_status_display [simp]:
  "filter is_sleep (events_of (status_display s a b c)) = []"
  by (simp add: status_display_def filter_attempt_none)

lemma sleeps_stats_tab [simp]: "filter is_sleep (events_of (stats_tab s d)) = []"
  by (simp add: stats_tab_def filter_attempt_none seq_projs)

lemma sleeps_results_section [simp]: "filter is_sleep (events_of (results_section env s)) = []"
  by (simp add: results_section_def show_documentation_def filter_attempt_none seq_projs)

lemma sleeps_footer [simp]: "filter is_sleep (events_of (footer s)) = []"
  by (simp add: footer_def)

lemma no_rerun_stats_tab [simp]: "ctl_of (stats_tab s d) \<noteq> Rerun"
  by (simp add: stats_tab_def ctl_attempt_no_rerun seq_projs)

lemma no_rerun_results_section [simp]: "ctl_of (results_section env s) \<noteq> Rerun"
  by (simp add: results_section_def show_documentation_def ctl_attempt_no_rerun seq_projs)

lemma requests_of_submit [simp]:
  "requests_of (events_of (submit env s)) = [PostAnalyze (url_text env)]"
  by (simp add: submit_def requests_of_attempt_none)

lemma requests_of_generate_panel:
  "requests_of (events_of (generate_panel env s)) =
     (if analyze_clicked env \<and> url_text env \<noteq> [] \<and>
         prefix ''https://github.com/'' (url_text env)
      then [PostAnalyze (url_text env)] else [])"
  by (simp add: generate_panel_def analyze_button_handler_def)

lemma read_progress_other:
  "read_progress d k a = Inr v \<Longrightarrow> \<exists>w. read_progress d k' a' = Inr w"
proof (cases d)
  case (JDict kvs)
  assume r: "read_progress d k a = Inr v"
  show ?thesis
  proof (cases "case map_of kvs ''progress'' of None \<Rightarrow> JDict [] | Some p \<Rightarrow> p")
    case (JDict ps)
    with \<open>d = JDict kvs\<close> show ?thesis by (simp add: read_progress_def)
  qed (use r \<open>d = JDict kvs\<close> in \<open>simp_all add: read_progress_def\<close>)
qed (simp_all add: read_progress_def)

text \<open>The status panel once the poll has given a status.\<close>

lemma status_panel_polled:
  assumes "truthy (task_id s)"
    and "poll_status (backend_at env AtStatusPanel) (task_id s) = Inr st"
  shows "\<exists>pct step. status_panel env s =
           emit [StHeader ''Status'', Request (GetStatus (task_id s))]
             (seq (status_display s st pct step) (\<lambda>s.
                if st \<notin> set [JStr ''completed'', JStr ''error'']
                then auto_refresh env s else ([], s, Continue)))"
proof -
  from assms(2) obtain d where
    d: "check_task_status (backend_at env AtStatusPanel) (task_id s) = Inr d"
    and st: "read_progress d ''status'' (JStr ''unknown'') = Inr st"
    by (auto simp: poll_status_def split: sum.splits)
  from read_progress_other [OF st] obtain pct where
    pct: "read_progress d ''progress_percentage'' (JInt 0) = Inr pct" by blast
  from read_progress_other [OF st] obtain step where
    step: "read_progress d ''current_step'' (JStr []) = Inr step" by blast
  have "status_panel env s =
           emit [StHeader ''Status'', Request (GetStatus (task_id s))]
             (seq (status_display s st pct step) (\<lambda>s.
                if st \<notin> set [JStr ''completed'', JStr ''error'']
                then auto_refresh env s else ([], s, Continue)))"
    using assms(1) by (simp add: status_panel_def d st pct step)
  then show ?thesis
    by blast
qed

lemma status_display_terminal:
  "st = JStr ''completed'' \<or> st = JStr ''error'' \<Longrightarrow>
   ctl_of (status_display s st pct step) = Continue"
  by (auto simp: status_display_def)

lemma status_display_ctl:
  "ctl_of (status_display s st pct step) = Continue \<or>
   crashed (ctl_of (status_display s st pct step))"
  by (cases "py_div100 pct") (auto simp: status_display_def)

text \<open>
  A progress percentage outside 0 to 100 stops the run at the progress bar: the call
  \<^verbatim>\<open>st.progress\<close> rejects the quotient, or the division itself overflows.
\<close>

lemma status_display_in_range:
  "0 \<le> i \<Longrightarrow> i \<le> 100 \<Longrightarrow>
   status_display s (JStr ''processing'') (JInt i) step =
     ([StInfo [Lit ''Processing: '', Val step], StProgress (Over100 (JInt i))], s, Continue)"
  by (simp add: status_display_def float_overflow_def check_float_between_def emit_def
        st_call_def)

lemma status_display_out_of_range:
  "i < 0 \<or> 100 < i \<Longrightarrow>
   crashed (ctl_of (status_display s (JStr ''processing'') (JInt i) step))"
  by (cases "py_div100 (JInt i)")
     (auto simp: status_display_def check_float_between_def isclose_def split: if_splits)

lemma status_display_150:
  "status_display s (JStr ''processing'') (JInt 150) step =
     ([StInfo [Lit ''Processing: '', Val step]], s,
      Crash (Exception ''StreamlitAPIException: Progress Value has invalid value [0.0, 1.0]''))"
  by (simp add: status_display_def float_overflow_def check_float_between_def isclose_def
        emit_def st_call_def)

lemma status_display_overflow:
  "status_display s (JStr ''processing'') (JInt (10 ^ 400)) step =
     ([StInfo [Lit ''Processing: '', Val step]], s,
      Crash (Exception ''OverflowError: integer division result too large for a float''))"
  by (simp add: status_display_def float_overflow_def emit_def)

lemma status_panel_terminal:
  assumes "truthy (task_id s)"
    and "poll_status (backend_at env AtStatusPanel) (task_id s) = Inr st"
    and "st = JStr ''completed'' \<or> st = JStr ''error''"
  shows "ctl_of (status_panel env s) = Continue"
    and "filter is_sleep (events_of (status_panel env s)) = []"
proof -
  from status_panel_polled [OF assms(1,2)] obtain pct step where
    sp: "status_panel env s =
           emit [StHeader ''Status'', Request (GetStatus (task_id s))]
             (seq (status_display s st pct step) (\<lambda>s.
                if st \<notin> set [JStr ''completed'', JStr ''error'']
                then auto_refresh env s else ([], s, Continue)))" by blast
  have t: "\<not> st \<notin> set [JStr ''completed'', JStr ''error'']"
    using assms(3) by auto
  show "ctl_of (status_panel env s) = Continue"
    unfolding sp using t by (simp add: seq_projs status_display_terminal [OF assms(3)])
  show "filter is_sleep (events_of (status_panel env s)) = []"
    unfolding sp using t by (simp add: seq_projs)
qed

lemma status_panel_waiting:
  assumes "truthy (task_id s)"
    and "poll_status (backend_at env AtStatusPanel) (task_id s) = Inr st"
    and "st \<noteq> JStr ''completed''" and "st \<noteq> JStr ''error''"
    and "\<not> crashed (ctl_of (status_panel env s))"
  shows "ctl_of (status_panel env s) = Rerun"
    and "filter is_sleep (events_of (status_panel env s)) =
           (if refresh_clicked env then [] else [Sleep 3])"
    and "\<not> refresh_clicked env \<Longrightarrow> last (events_of (status_panel env s)) = Sleep 3"
proof -
  from status_panel_polled [OF assms(1,2)] obtain pct step where
    sp: "status_panel env s =
           emit [StHeader ''Status'', Request (GetStatus (task_id s))]
             (seq (status_display s st pct step) (\<lambda>s.
                if st \<notin> set [JStr ''completed'', JStr ''error'']
                then auto_refresh env s else ([], s, Continue)))" by blast
  have t: "st \<notin> set [JStr ''completed'', JStr ''error'']"
    using assms(3,4) by simp
  have c: "ctl_of (status_display s st pct step) = Continue"
    using status_display_ctl [of s st pct step] assms(5) unfolding sp
    by (auto simp: seq_projs split: if_splits)
  show "ctl_of (status_panel env s) = Rerun"
    unfolding sp using t c by (simp add: seq_projs auto_refresh_def)
  show "filter is_sleep (events_of (status_panel env s)) =
           (if refresh_clicked env then [] else [Sleep 3])"
    unfolding sp using t c by (simp add: seq_projs auto_refresh_def)
  show "last (events_of (status_panel env s)) = Sleep 3" if "\<not> refresh_clicked env"
    unfolding sp using t c that by (simp add: seq_projs auto_refresh_def)
qed

lemma not_rerun_cases: "c \<noteq> Rerun \<Longrightarrow> c = Continue \<or> crashed c"
  by (cases c) simp_all

lemma filter_requests_of_generate_panel [simp]:
  "filter is_status_request (requests_of (events_of (generate_panel env s))) = []"
  "filter is_download_request (requests_of (events_of (generate_panel env s))) = []"
  by (simp_all add: requests_of_generate_panel)

text \<open>A run whose form part goes on to the status panel.\<close>

lemma render_from_reaching:
  assumes "ctl_of (generate_panel env (session_of (sidebar env s))) = Continue"
  shows "events_of (render_from env s) =
           page_header @ events_of (sidebar env s) @
           events_of (generate_panel env (session_of (sidebar env s))) @
           events_of (status_panel env (session_of (sidebar env s))) @
           (if ctl_of (status_panel env (session_of (sidebar env s))) = Continue
            then events_of (results_section env (session_of (sidebar env s))) @
                 (if ctl_of (results_section env (session_of (sidebar env s))) = Continue
                  then events_of (footer (session_of (sidebar env s))) else [])
            else [])"
    and "ctl_of (render_from env s) =
           (if ctl_of (status_panel env (session_of (sidebar env s))) = Continue
            then ctl_of (results_section env (session_of (sidebar env s)))
            else ctl_of (status_panel env (session_of (sidebar env s))))"
    and "session_of (render_from env s) = session_of (sidebar env s)"
  using assms generate_panel_Continue [OF assms]
  by (simp_all add: render_from_def seq_projs)

lemma page_header_plain [simp]:
  "requests_of page_header = []" "filter is_sleep page_header = []"
  by (simp_all add: page_header_def)

lemma poll_status_example [simp]: "poll_status (example_backend st) t = Inr (JStr st)"
  by (simp add: poll_status_def check_task_status_def check_task_status_try_def
        example_backend_def read_progress_def progress_record_def)

lemma example_env_simps [simp]:
  "backend_at (example_env b) site = b"
  "selected_example (example_env b) = ''Select an example...''"
  "use_example_clicked (example_env b) = False"
  "url_text (example_env b) = ''https://github.com/acme/widgets''"
  "analyze_clicked (example_env b) = False"
  "refresh_clicked (example_env b) = False"
  "now (example_env b) = ''20260101_120000''"
  by (simp_all add: example_env_def)

lemma example_session_simps [simp]:
  "task_id example_session = JStr ''t1''"
  "truthy (task_id example_session)"
  by (simp_all add: example_session_def)

lemma generate_panel_idle:
  "\<not> analyze_clicked env \<Longrightarrow> ctl_of (generate_panel env s) = Continue"
  by (simp add: generate_panel_def)

lemma poll_status_200:
  "b (GetStatus t) = Response 200 (Inr status_data) \<Longrightarrow>
   poll_status b t = read_progress status_data ''status'' (JStr ''unknown'')"
  by (simp add: poll_status_def check_task_status_def check_task_status_try_def)

lemma status_request_next_run:
  assumes "truthy (task_id s)"
    and "ctl_of (generate_panel env (session_of (sidebar env s))) = Continue"
  shows "GetStatus (task_id s) \<in> set (requests_of (events_of (render env (stored s))))"
  unfolding render_def init_session_stored render_from_reaching(1) [OF assms(2)]
  using assms(1) by (simp add: requests_of_status_panel)

lemma status_panel_example_processing:
  "backend_at env AtStatusPanel = example_backend ''processing'' \<Longrightarrow>
   ctl_of (status_panel env example_session) = Rerun"
  by (simp add: status_panel_def check_task_status_def check_task_status_try_def
        example_backend_def progress_record_def read_progress_def status_display_def
        seq_projs auto_refresh_def float_overflow_def check_float_between_def)

text \<open>The time stamp reaches the page in one place only.\<close>

lemma now_sidebar [simp]: "sidebar (env\<lparr>now := t\<rparr>) s = sidebar env s"
  by (simp add: sidebar_def)

lemma now_generate_panel [simp]: "generate_panel (env\<lparr>now := t\<rparr>) s = generate_panel env s"
  by (simp add: generate_panel_def analyze_button_handler_def submit_def cong: if_cong)

lemma now_status_panel [simp]: "status_panel (env\<lparr>now := t\<rparr>) s = status_panel env s"
  by (simp add: status_panel_def auto_refresh_def cong: if_cong)

lemma now_results_section:
  "map without_stamp (events_of (results_section (env\<lparr>now := t\<rparr>) s)) =
     map without_stamp (events_of (results_section env s))"
  "ctl_of (results_section (env\<lparr>now := t\<rparr>) s) = ctl_of (results_section env s)"
  by (simp_all add: results_section_def show_documentation_def attempt_def seq_projs
        st_call_ctl split: sum.splits)

lemma now_render_from:
  "map without_stamp (events_of (render_from (env\<lparr>now := t\<rparr>) s)) =
     map without_stamp (events_of (render_from env s))"
  "ctl_of (render_from (env\<lparr>now := t\<rparr>) s) = ctl_of (render_from env s)"
  "session_of (render_from (env\<lparr>now := t\<rparr>) s) = session_of (render_from env s)"
  by (simp_all add: render_from_def seq_projs now_results_section)

lemma sidebar_again: "sidebar env (session_of (sidebar env s)) = sidebar env s"
  by (rule step_eqI) (simp_all add: sidebar_def)

lemma render_from_again:
  assumes "ctl_of (generate_panel env (session_of (sidebar env s))) = Continue"
  shows "render_from env (session_of (render_from env s)) = render_from env s"
proof -
  have "render_from env (session_of (sidebar env s)) = render_from env s"
    by (simp add: render_from_def seq_def sidebar_again)
  then show ?thesis
    by (simp add: render_from_reaching(3) [OF assms])
qed

lemma requests_of_without_stamp [simp]:
  "requests_of (map without_stamp evs) = requests_of evs"
  by (induction evs rule: requests_of.induct) simp_all

lemma download_requests_terminal:
  assumes "truthy (task_id s)"
    and "ctl_of (generate_panel env (session_of (sidebar env s))) = Continue"
    and "poll_status (backend_at env AtStatusPanel) (task_id s) = Inr st"
    and "st = JStr ''completed'' \<or> st = JStr ''error''"
  shows "filter is_download_request (requests_of (events_of (render_from env s))) =
           (if poll_status (backend_at env AtResults) (task_id s) = Inr (JStr ''completed'')
            then [GetDownload (task_id s)] else [])"
proof -
  let ?s = "session_of (sidebar env s)"
  have t: "truthy (task_id ?s)"
    using assms(1) by simp
  have p: "poll_status (backend_at env AtStatusPanel) (task_id ?s) = Inr st"
    using assms(3) by simp
  show ?thesis
    unfolding render_from_reaching(1) [OF assms(2)]
    by (simp add: status_panel_terminal [OF t p assms(4)] requests_of_status_panel
          requests_of_results_section assms(1))
qed

lemma buttons_sidebar [simp]: "filter is_download_button (events_of (sidebar env s)) = []"
  by (simp add: sidebar_def)

lemma buttons_generate_panel [simp]:
  "filter is_download_button (events_of (generate_panel env s)) = []"
  by (simp add: generate_panel_def analyze_button_handler_def submit_def filter_attempt_none)

lemma buttons_status_display [simp]:
  "filter is_download_button (events_of (status_display s a b c)) = []"
  by (simp add: status_display_def filter_attempt_none)

lemma buttons_status_panel [simp]:
  "filter is_download_button (events_of (status_panel env s)) = []"
  by (simp add: status_panel_def filter_attempt_none seq_projs auto_refresh_def)

lemma buttons_stats_tab [simp]: "filter is_download_button (events_of (stats_tab s d)) = []"
  by (simp add: stats_tab_def filter_attempt_none seq_projs)

lemma buttons_footer [simp]: "filter is_download_button (events_of (footer s)) = []"
  by (simp add: footer_def)

lemma buttons_page_header [simp]: "filter is_download_button page_header = []"
  by (simp add: page_header_def)

lemma buttons_results_example:
  "backend_at env AtResults = example_backend ''completed'' \<Longrightarrow>
   backend_at env AtDownload = example_backend ''completed'' \<Longrightarrow>
   filter is_download_button (events_of (results_section env example_session)) =
     [StDownloadButton (JStr ''# Widgets'') [Lit ''documentation_'', Lit (now env), Lit ''.md'']]"
  by (simp add: results_section_def show_documentation_def check_task_status_def
        check_task_status_try_def download_documentation_def download_documentation_try_def
        example_backend_def progress_record_def read_progress_def seq_projs)

lemma buttons_run_example:
  assumes "\<And>site. backend_at env site = example_backend ''completed''"
    and "\<not> analyze_clicked env"
    and "selected_example env = ''Select an example...''"
  shows "filter is_download_button (events_of (render env (stored example_session))) =
     [StDownloadButton (JStr ''# Widgets'') [Lit ''documentation_'', Lit (now env), Lit ''.md'']]"
proof -
  have sb: "session_of (sidebar env example_session) = example_session"
    using assms(3) by (simp add: session_of_sidebar)
  have g: "ctl_of (generate_panel env (session_of (sidebar env example_session))) = Continue"
    using assms(2) by (simp add: generate_panel_idle)
  have p: "poll_status (backend_at env AtStatusPanel) (task_id example_session) =
             Inr (JStr ''completed'')"
    by (simp add: assms(1))
  have c: "ctl_of (status_panel env example_session) = Continue"
    using status_panel_terminal(1) [OF example_session_simps(2) p] by simp
  show ?thesis
    unfolding render_def init_session_stored render_from_reaching(1) [OF g] sb
    by (simp add: c buttons_results_example assms(1))
qed

section \<open>The helper functions and their failures\<close>

text \<open>
  C7. \<^verbatim>\<open>check_backend_health\<close> returns \<^verbatim>\<open>True\<close> exactly when the GET to the health
  endpoint comes back with status code 200; a raised exception of any kind and a status
  code other than 200 both give \<^verbatim>\<open>False\<close>.
\<close>

theorem check_backend_health_iff_200:
  "(check_backend_health b \<longleftrightarrow> (\<exists>body. b GetHealth = Response 200 body)) \<and>
   (b GetHealth = Raised e \<longrightarrow> \<not> check_backend_health b) \<and>
   (b GetHealth = Response status_code body \<and> status_code \<noteq> 200 \<longrightarrow>
      \<not> check_backend_health b)"
  by (simp add: check_backend_health_def split: http.splits)

theorem check_backend_health_iff_200_witness:
  "check_backend_health (\<lambda>r. Response 200 (Inr (JDict [(''status'', JStr ''ok'')]))) \<and>
   \<not> check_backend_health (\<lambda>r. Raised (BaseException ''KeyboardInterrupt'')) \<and>
   \<not> check_backend_health (\<lambda>r. Response 503 (Inl (Exception ''Expecting value'')))"
  using check_backend_health_iff_200
          [of "\<lambda>r. Response 200 (Inr (JDict [(''status'', JStr ''ok'')]))"]
        check_backend_health_iff_200
          [of "\<lambda>r. Raised (BaseException ''KeyboardInterrupt'')"
              "BaseException ''KeyboardInterrupt''"]
        check_backend_health_iff_200
          [of "\<lambda>r. Response 503 (Inl (Exception ''Expecting value''))" _ 503
              "Inl (Exception ''Expecting value'')"]
  by simp

text \<open>
  C2. When the backend answers with a status code other than 200, and when the call
  raises a transport exception, each of \<^verbatim>\<open>analyze_repository\<close>,
  \<^verbatim>\<open>check_task_status\<close> and \<^verbatim>\<open>download_documentation\<close> returns (\<open>Inr\<close>: no
  exception leaves the function) a dictionary that has an \<^verbatim>\<open>"error"\<close> key.
\<close>

theorem failed_calls_give_error_dict:
  "(failed (b (PostAnalyze u)) \<longrightarrow>
      (\<exists>d. analyze_repository b u = Inr d \<and> error_shaped d)) \<and>
   (failed (b (GetStatus t)) \<longrightarrow>
      (\<exists>d. check_task_status b t = Inr d \<and> error_shaped d)) \<and>
   (failed (b (GetDownload t)) \<longrightarrow>
      (\<exists>d. download_documentation b t = Inr d \<and> error_shaped d))"
  by (auto simp: analyze_repository_def analyze_repository_try_def
        check_task_status_def check_task_status_try_def
        download_documentation_def download_documentation_try_def
      split: http.splits)

theorem failed_calls_give_error_dict_witness:
  "failed (refusing (PostAnalyze ''https://github.com/acme/widgets'')) \<and>
   failed (refusing (GetStatus (JStr ''t1''))) \<and>
   failed (refusing (GetDownload (JStr ''t1''))) \<and>
   analyze_repository refusing ''https://github.com/acme/widgets'' =
     Inr (JDict [(''error'', JStr ''Failed with status code: 500'')]) \<and>
   check_task_status refusing (JStr ''t1'') =
     Inr (JDict [(''status'', JStr ''error''), (''error'', JStr ''Connection refused'')]) \<and>
   download_documentation refusing (JStr ''t1'') =
     Inr (JDict [(''error'', JStr ''Failed to download documentation'')])"
  using failed_calls_give_error_dict
          [of refusing "''https://github.com/acme/widgets''" "JStr ''t1''"]
  by (simp add: refusing_def analyze_repository_def analyze_repository_try_def
        check_task_status_def check_task_status_try_def
        download_documentation_def download_documentation_try_def str_int_500)

text \<open>
  C8. For every task id, \<^verbatim>\<open>check_task_status\<close> returns the decoded JSON record of the
  backend when the response has status code 200, and otherwise the dictionary
  \<^verbatim>\<open>{"status": "error", "error": msg}\<close>: with the fixed message for a status code
  other than 200, and with \<^verbatim>\<open>str(e)\<close> for an exception of the request (or of decoding
  the body of a 200 response, which leaves no record to return).
\<close>

theorem check_task_status_result:
  "(b (GetStatus t) = Response 200 (Inr j) \<longrightarrow> check_task_status b t = Inr j) \<and>
   (b (GetStatus t) = Response status_code body \<and> status_code \<noteq> 200 \<longrightarrow>
      check_task_status b t = Inr (status_error ''Failed to check status'')) \<and>
   (b (GetStatus t) = Raised e \<and> is_Exception e \<longrightarrow>
      check_task_status b t = Inr (status_error (str_exn e))) \<and>
   (b (GetStatus t) = Response 200 (Inl e) \<and> is_Exception e \<longrightarrow>
      check_task_status b t = Inr (status_error (str_exn e)))"
  by (simp add: check_task_status_def check_task_status_try_def status_error_def)

theorem check_task_status_result_witness:
  "check_task_status (example_backend ''processing'') (JStr ''t1'') =
     Inr (progress_record ''processing'') \<and>
   check_task_status (\<lambda>r. Response 404 (Inr JNull)) (JStr ''t1'') =
     Inr (JDict [(''status'', JStr ''error''), (''error'', JStr ''Failed to check status'')]) \<and>
   check_task_status refusing (JStr ''t1'') =
     Inr (JDict [(''status'', JStr ''error''), (''error'', JStr ''Connection refused'')]) \<and>
   check_task_status (\<lambda>r. Response 200 (Inl (Exception ''Expecting value''))) (JStr ''t1'') =
     Inr (JDict [(''status'', JStr ''error''), (''error'', JStr ''Expecting value'')])"
  using check_task_status_result
          [of "example_backend ''processing''" "JStr ''t1''" "progress_record ''processing''"]
        check_task_status_result
          [of "\<lambda>r. Response 404 (Inr JNull)" "JStr ''t1''" _ 404 "Inr JNull"]
        check_task_status_result
          [of refusing "JStr ''t1''" _ _ _ "Exception ''Connection refused''"]
        check_task_status_result
          [of "\<lambda>r. Response 200 (Inl (Exception ''Expecting value''))" "JStr ''t1''" _ _ _
              "Exception ''Expecting value''"]
  by (simp add: example_backend_def refusing_def status_error_def)

section \<open>The session state\<close>

text \<open>
  C9. The session field \<^verbatim>\<open>documentation\<close> is \<^verbatim>\<open>None\<close> after the first
  initialisation, and no run writes it: whatever the backend answers and whatever the
  user does, a run leaves the field as it found it, so after any number of runs from a
  fresh session it is still \<^verbatim>\<open>None\<close>. The downloaded document lives in a local
  variable of the results section only.
\<close>

theorem documentation_never_written:
  "documentation (init_session Map.empty) = JNull \<and>
   documentation (session_of (render env raw)) = documentation (init_session raw) \<and>
   documentation (init_session (run_all envs Map.empty)) = JNull"
proof -
  have "documentation (init_session (run_all es r)) = documentation (init_session r)"
    for es r
    by (induction es arbitrary: r) (simp_all add: render_def)
  then show ?thesis
    by (simp add: render_def) (simp add: init_session_def)
qed

section \<open>Submitting a repository\<close>

text \<open>
  C1. When the Analyze button is pressed with a URL that is empty or does not start with
  \<^verbatim>\<open>https://github.com/\<close>, the handler does nothing but show the validation error: it
  leaves the session alone, and the whole run issues no request to
  \<^verbatim>\<open>/analyze_repo\<close> (\<^verbatim>\<open>analyze_repository\<close> is not called) and shows the error.
\<close>

theorem invalid_url_not_submitted:
  assumes "analyze_clicked env"
    and "url_text env = [] \<or> \<not> prefix ''https://github.com/'' (url_text env)"
  shows "analyze_button_handler env s =
           ([StError [Lit (if url_text env = [] then ''Please enter a repository URL''
                           else ''Please enter a valid GitHub URL'')]], s, Continue) \<and>
         filter is_analyze_request (requests_of (events_of (render env raw))) = [] \<and>
         StError [Lit (if url_text env = [] then ''Please enter a repository URL''
                       else ''Please enter a valid GitHub URL'')]
           \<in> set (events_of (render env raw))"
proof -
  let ?msg = "StError [Lit (if url_text env = [] then ''Please enter a repository URL''
                       else ''Please enter a valid GitHub URL'')]"
  have h: "analyze_button_handler env s = ([?msg], s, Continue)" for s
    using assms(2) by (rule handler_invalid)
  have g: "generate_panel env s =
             ([StHeader ''Generate Documentation'',
               StTextInput ''GitHub Repository URL'' (repo_url s),
               StButton ''Analyze Repository'', ?msg], s, Continue)" for s
    using assms(1) by (simp add: generate_panel_def h emit_def)
  show ?thesis
    by (simp add: h render_def render_from_def seq_projs g page_header_def)
qed

theorem invalid_url_not_submitted_witness:
  "analyze_clicked ((example_env refusing)\<lparr>url_text := ''not-a-url'', analyze_clicked := True\<rparr>) \<and>
   \<not> prefix ''https://github.com/''
       (url_text ((example_env refusing)\<lparr>url_text := ''not-a-url'', analyze_clicked := True\<rparr>)) \<and>
   analyze_button_handler
     ((example_env refusing)\<lparr>url_text := ''not-a-url'', analyze_clicked := True\<rparr>)
     example_session =
     ([StError [Lit ''Please enter a valid GitHub URL'']], example_session, Continue) \<and>
   filter is_analyze_request (requests_of (events_of (render
     ((example_env refusing)\<lparr>url_text := ''not-a-url'', analyze_clicked := True\<rparr>)
     Map.empty))) = []"
proof -
  let ?env = "(example_env refusing)\<lparr>url_text := ''not-a-url'', analyze_clicked := True\<rparr>"
  have c: "analyze_clicked ?env"
    by simp
  have u: "url_text ?env = ''not-a-url''"
    by simp
  have p: "url_text ?env = [] \<or> \<not> prefix ''https://github.com/'' (url_text ?env)"
    unfolding u by simp
  from invalid_url_not_submitted [OF c p, of example_session Map.empty] c p
  show ?thesis
    unfolding u by simp
qed

text \<open>
  C5. When a submission comes back error-shaped (the dictionary that
  \<^verbatim>\<open>analyze_repository\<close> returns has an \<^verbatim>\<open>"error"\<close> key), the handler shows the
  spinner, issues the request and renders the one error message built from the value
  under that key; it writes nothing to the session. The run ends with the session as it
  stood when the handler began: \<^verbatim>\<open>task_id\<close>, \<^verbatim>\<open>status\<close> and
  \<^verbatim>\<open>documentation\<close> as the run found them, \<^verbatim>\<open>repo_url\<close> as the side bar left it.
\<close>

theorem error_result_keeps_session:
  assumes "analyze_clicked env" and "url_text env \<noteq> []"
    and "prefix ''https://github.com/'' (url_text env)"
    and "analyze_repository (backend_at env AtSubmit) (url_text env) = Inr (JDict kvs)"
    and "map_of kvs ''error'' = Some v"
  shows "analyze_button_handler env s =
           ([StSpinner ''Starting analysis...'', Request (PostAnalyze (url_text env)),
             StError [Lit ''Error: '', Val v]], s, Continue) \<and>
         session_of (render env raw) = session_of (sidebar env (init_session raw)) \<and>
         task_id (session_of (render env raw)) = task_id (init_session raw) \<and>
         status (session_of (render env raw)) = status (init_session raw) \<and>
         documentation (session_of (render env raw)) = documentation (init_session raw)"
proof -
  have h: "analyze_button_handler env s = submit env s" for s
    using assms(2,3) by (simp add: analyze_button_handler_def)
  have sub: "submit env s =
      ([StSpinner ''Starting analysis...'', Request (PostAnalyze (url_text env)),
        StError [Lit ''Error: '', Val v]], s, Continue)" for s
    using assms(4,5) by (rule submit_error)
  have g: "session_of (generate_panel env s) = s" "ctl_of (generate_panel env s) = Continue"
    for s
    using assms(1) by (simp_all add: generate_panel_def h sub)
  have fin: "session_of (render env raw) = session_of (sidebar env (init_session raw))"
    by (simp add: render_def render_from_def seq_projs g)
  show ?thesis
    by (simp add: h sub fin)
qed

theorem error_result_keeps_session_witness:
  "analyze_button_handler ((example_env refusing)\<lparr>analyze_clicked := True\<rparr>) example_session =
     ([StSpinner ''Starting analysis...'',
       Request (PostAnalyze ''https://github.com/acme/widgets''),
       StError [Lit ''Error: '', Val (JStr ''Failed with status code: 500'')]],
      example_session, Continue) \<and>
   session_of (render ((example_env refusing)\<lparr>analyze_clicked := True\<rparr>)
     (stored example_session)) = example_session"
proof -
  let ?env = "(example_env refusing)\<lparr>analyze_clicked := True\<rparr>"
  have u: "url_text ?env = ''https://github.com/acme/widgets''"
    by (simp add: example_env_def)
  have b: "backend_at ?env AtSubmit = refusing"
    by (simp add: example_env_def)
  have c: "analyze_clicked ?env"
    by simp
  have n: "url_text ?env \<noteq> []"
    unfolding u by simp
  have p: "prefix ''https://github.com/'' (url_text ?env)"
    unfolding u by simp
  have a: "analyze_repository (backend_at ?env AtSubmit) (url_text ?env) =
             Inr (JDict [(''error'', JStr ''Failed with status code: 500'')])"
    unfolding u b
    by (simp add: analyze_repository_def analyze_repository_try_def refusing_def str_int_500)
  have m: "map_of [(''error'', JStr ''Failed with status code: 500'')] ''error'' =
             Some (JStr ''Failed with status code: 500'')"
    by simp
  have sb: "session_of (sidebar ?env example_session) = example_session"
    by (simp add: session_of_sidebar example_env_def)
  from error_result_keeps_session [OF c n p a m, of example_session "stored example_session"]
  show ?thesis
    unfolding u by (simp add: sb)
qed

text \<open>
  C10. When the dictionary a submission returns has no \<^verbatim>\<open>"error"\<close> key, the run sets
  \<^verbatim>\<open>status\<close> to the string \<^verbatim>\<open>processing\<close>, \<^verbatim>\<open>repo_url\<close> to the submitted URL and
  \<^verbatim>\<open>task_id\<close> to \<^verbatim>\<open>result.get("task_id")\<close>, which is \<^verbatim>\<open>None\<close> when the key is
  missing, and then calls \<^verbatim>\<open>st.rerun()\<close>.
\<close>

theorem started_submission_updates_session:
  assumes "analyze_clicked env" and "url_text env \<noteq> []"
    and "prefix ''https://github.com/'' (url_text env)"
    and "analyze_repository (backend_at env AtSubmit) (url_text env) = Inr (JDict kvs)"
    and "map_of kvs ''error'' = None"
  shows "session_of (render env raw) =
           (init_session raw)
             \<lparr>task_id := (case map_of kvs ''task_id'' of None \<Rightarrow> JNull | Some t \<Rightarrow> t),
              status := JStr ''processing'', repo_url := JStr (url_text env)\<rparr> \<and>
         ctl_of (render env raw) = Rerun \<and>
         status (session_of (render env raw)) = JStr ''processing'' \<and>
         repo_url (session_of (render env raw)) = JStr (url_text env) \<and>
         (map_of kvs ''task_id'' = None \<longrightarrow> task_id (session_of (render env raw)) = JNull)"
proof -
  let ?tid = "case map_of kvs ''task_id'' of None \<Rightarrow> JNull | Some t \<Rightarrow> t"
  have sub: "session_of (submit env s) =
               s\<lparr>task_id := ?tid, status := JStr ''processing'',
                 repo_url := JStr (url_text env)\<rparr>"
            "ctl_of (submit env s) = Rerun" for s
    using submit_started [OF assms(4,5), of s] by simp_all
  have g: "session_of (generate_panel env s) =
             s\<lparr>task_id := ?tid, status := JStr ''processing'',
               repo_url := JStr (url_text env)\<rparr>"
          "ctl_of (generate_panel env s) = Rerun" for s
    using assms(1,2,3) by (simp_all add: generate_panel_submit sub)
  have fin: "session_of (render env raw) =
           (init_session raw)\<lparr>task_id := ?tid, status := JStr ''processing'',
              repo_url := JStr (url_text env)\<rparr>"
    by (simp add: render_def render_from_def seq_projs g session_of_sidebar)
  have c: "ctl_of (render env raw) = Rerun"
    by (simp add: render_def render_from_def seq_projs g)
  show ?thesis
    unfolding fin by (simp add: c)
qed

theorem started_submission_updates_session_witness:
  "session_of (render
     ((example_env (\<lambda>r. Response 200 (Inr (JDict []))))\<lparr>analyze_clicked := True\<rparr>) Map.empty) =
     \<lparr>task_id = JNull, status = JStr ''processing'', documentation = JNull,
      repo_url = JStr ''https://github.com/acme/widgets''\<rparr> \<and>
   ctl_of (render
     ((example_env (\<lambda>r. Response 200 (Inr (JDict []))))\<lparr>analyze_clicked := True\<rparr>) Map.empty) =
     Rerun"
proof -
  let ?env = "(example_env (\<lambda>r. Response 200 (Inr (JDict []))))\<lparr>analyze_clicked := True\<rparr>"
  have u: "url_text ?env = ''https://github.com/acme/widgets''"
    by (simp add: example_env_def)
  have b: "backend_at ?env AtSubmit = (\<lambda>r. Response 200 (Inr (JDict [])))"
    by (simp add: example_env_def)
  have c: "analyze_clicked ?env"
    by simp
  have n: "url_text ?env \<noteq> []"
    unfolding u by simp
  have p: "prefix ''https://github.com/'' (url_text ?env)"
    unfolding u by simp
  have a: "analyze_repository (backend_at ?env AtSubmit) (url_text ?env) = Inr (JDict [])"
    unfolding u b by (simp add: analyze_repository_def analyze_repository_try_def)
  have m: "map_of ([] :: (string \<times> json) list) ''error'' = None"
    by simp
  from started_submission_updates_session [OF c n p a m, of Map.empty]
  show ?thesis
    unfolding u by (simp add: init_session_def)
qed

section \<open>Polling\<close>

text \<open>
  C3, as the script has it. In one run with a task id that counts as true, once the
  status panel has read the status \<^verbatim>\<open>completed\<close> or \<^verbatim>\<open>error\<close> from its poll, the run
  neither sleeps nor reruns, and \<^verbatim>\<open>check_task_status\<close> is called exactly once more, by
  the results section, and not again after that; \<^verbatim>\<open>download_documentation\<close> is called
  exactly once if the poll of the results section reads \<^verbatim>\<open>completed\<close>, and not at all
  otherwise.
\<close>

theorem terminal_poll_one_more_poll_one_download:
  assumes "truthy (task_id s)"
    and "ctl_of (generate_panel env (session_of (sidebar env s))) = Continue"
    and "poll_status (backend_at env AtStatusPanel) (task_id s) = Inr st"
    and "st = JStr ''completed'' \<or> st = JStr ''error''"
  shows "filter is_sleep (events_of (render_from env s)) = [] \<and>
         ctl_of (render_from env s) \<noteq> Rerun \<and>
         filter is_status_request (requests_of (events_of (render_from env s))) =
           [GetStatus (task_id s), GetStatus (task_id s)] \<and>
         filter is_download_request (requests_of (events_of (render_from env s))) =
           (if poll_status (backend_at env AtResults) (task_id s) = Inr (JStr ''completed'')
            then [GetDownload (task_id s)] else [])"
proof -
  let ?s = "session_of (sidebar env s)"
  have t: "truthy (task_id ?s)" and tid: "task_id ?s = task_id s"
    using assms(1) by simp_all
  have p: "poll_status (backend_at env AtStatusPanel) (task_id ?s) = Inr st"
    using assms(3) by simp
  note panel = status_panel_terminal [OF t p assms(4)]
  note run = render_from_reaching [OF assms(2)]
  show ?thesis
    unfolding run
    by (simp add: panel requests_of_status_panel requests_of_results_section assms(1))
qed

theorem terminal_poll_one_more_poll_one_download_witness:
  "filter is_status_request (requests_of (events_of
     (render_from (example_env (example_backend ''completed'')) example_session))) =
     [GetStatus (JStr ''t1''), GetStatus (JStr ''t1'')] \<and>
   filter is_download_request (requests_of (events_of
     (render_from (example_env (example_backend ''completed'')) example_session))) =
     [GetDownload (JStr ''t1'')] \<and>
   filter is_sleep (events_of
     (render_from (example_env (example_backend ''completed'')) example_session)) = []"
proof -
  let ?env = "example_env (example_backend ''completed'')"
  have g: "ctl_of (generate_panel ?env (session_of (sidebar ?env example_session))) = Continue"
    by (simp add: generate_panel_idle)
  have t: "truthy (task_id example_session)"
    by simp
  have p: "poll_status (backend_at ?env AtStatusPanel) (task_id example_session) =
             Inr (JStr ''completed'')"
    by simp
  have c: "JStr ''completed'' = JStr ''completed'' \<or> JStr ''completed'' = JStr ''error''"
    by simp
  from terminal_poll_one_more_poll_one_download [OF t g p c]
  show ?thesis
    by simp
qed

text \<open>
  C3 as stated does not hold: the status panel reads the status \<^verbatim>\<open>error\<close>, and the
  results section of the same run calls \<^verbatim>\<open>check_task_status\<close> again.
\<close>

theorem status_polled_again_after_error:
  "poll_status (backend_at (example_env (example_backend ''error'')) AtStatusPanel)
     (task_id example_session) = Inr (JStr ''error'') \<and>
   requests_of (events_of (render (example_env (example_backend ''error''))
     (stored example_session))) =
     [GetHealth, GetStatus (JStr ''t1''), GetStatus (JStr ''t1'')]"
proof -
  let ?env = "example_env (example_backend ''error'')"
  have g: "ctl_of (generate_panel ?env (session_of (sidebar ?env example_session))) = Continue"
    by (simp add: generate_panel_idle)
  have sb: "session_of (sidebar ?env example_session) = example_session"
    by (simp add: session_of_sidebar)
  have p: "poll_status (backend_at ?env AtStatusPanel) (task_id example_session) =
             Inr (JStr ''error'')"
    by simp
  have e: "JStr ''error'' = JStr ''completed'' \<or> JStr ''error'' = JStr ''error''"
    by simp
  have c: "ctl_of (status_panel ?env example_session) = Continue"
    using p e by (rule status_panel_terminal(1) [OF example_session_simps(2)])
  show ?thesis
    unfolding render_def init_session_stored render_from_reaching(1) [OF g] sb
    by (simp add: c requests_of_status_panel requests_of_results_section
          requests_of_generate_panel)
qed

text \<open>
  C6, as the script has it. Take a run that reaches the status panel with a task id that
  counts as true, whose status request is answered with status 200 and a decoded body,
  and that no exception stops. If the status read from the body is neither
  \<^verbatim>\<open>completed\<close> nor \<^verbatim>\<open>error\<close>, the run ends in \<^verbatim>\<open>st.rerun()\<close>: after exactly one
  \<^verbatim>\<open>time.sleep(3)\<close>, its last action, when the Refresh button was not pressed, and
  without any sleep when it was. If the status is \<^verbatim>\<open>completed\<close> or \<^verbatim>\<open>error\<close>, the
  run neither sleeps nor reruns. The run leaves the session as the side bar left it, so
  every next run that reaches the status panel calls \<^verbatim>\<open>check_task_status\<close> for the
  same task again.
\<close>

theorem auto_refresh_schedule:
  assumes "truthy (task_id s)"
    and "ctl_of (generate_panel env (session_of (sidebar env s))) = Continue"
    and "backend_at env AtStatusPanel (GetStatus (task_id s)) = Response 200 (Inr status_data)"
    and "read_progress status_data ''status'' (JStr ''unknown'') = Inr st"
    and "\<not> crashed (ctl_of (render_from env s))"
  shows "(st \<noteq> JStr ''completed'' \<and> st \<noteq> JStr ''error'' \<and> \<not> refresh_clicked env \<longrightarrow>
            ctl_of (render_from env s) = Rerun \<and>
            filter is_sleep (events_of (render_from env s)) = [Sleep 3] \<and>
            last (events_of (render_from env s)) = Sleep 3) \<and>
         (st \<noteq> JStr ''completed'' \<and> st \<noteq> JStr ''error'' \<and> refresh_clicked env \<longrightarrow>
            ctl_of (render_from env s) = Rerun \<and>
            filter is_sleep (events_of (render_from env s)) = []) \<and>
         (st = JStr ''completed'' \<or> st = JStr ''error'' \<longrightarrow>
            ctl_of (render_from env s) = Continue \<and>
            filter is_sleep (events_of (render_from env s)) = []) \<and>
         session_of (render_from env s) = session_of (sidebar env s) \<and>
         (\<forall>env'. ctl_of (generate_panel env'
                   (session_of (sidebar env' (session_of (render_from env s))))) = Continue \<longrightarrow>
            GetStatus (task_id s) \<in> set (requests_of (events_of
              (render env' (stored (session_of (render_from env s)))))))"
proof -
  let ?s = "session_of (sidebar env s)"
  note run = render_from_reaching [OF assms(2)]
  have t: "truthy (task_id ?s)"
    using assms(1) by simp
  have p: "poll_status (backend_at env AtStatusPanel) (task_id ?s) = Inr st"
    using assms(3,4) by (simp add: poll_status_200)
  have waiting: "ctl_of (render_from env s) = Rerun \<and>
      filter is_sleep (events_of (render_from env s)) =
        (if refresh_clicked env then [] else [Sleep 3]) \<and>
      (\<not> refresh_clicked env \<longrightarrow> last (events_of (render_from env s)) = Sleep 3)"
    if n: "st \<noteq> JStr ''completed''" "st \<noteq> JStr ''error''"
  proof -
    have nc: "\<not> crashed (ctl_of (status_panel env ?s))"
    proof
      assume "crashed (ctl_of (status_panel env ?s))"
      then have "crashed (ctl_of (render_from env s))"
        unfolding run by (auto split: if_splits)
      with assms(5) show False by contradiction
    qed
    note w = status_panel_waiting [OF t p n nc]
    have ne: "events_of (status_panel env ?s) \<noteq> []"
      using t by (simp add: status_panel_def)
    show ?thesis
      unfolding run using ne by (simp add: w)
  qed
  have terminal: "ctl_of (render_from env s) = Continue \<and>
      filter is_sleep (events_of (render_from env s)) = []"
    if e: "st = JStr ''completed'' \<or> st = JStr ''error''"
  proof -
    note panel = status_panel_terminal [OF t p e]
    have "ctl_of (results_section env ?s) = Continue"
      using assms(5) not_rerun_cases [OF no_rerun_results_section [of env ?s]]
      unfolding run by (auto simp: panel)
    then show ?thesis
      unfolding run by (simp add: panel)
  qed
  have keep: "session_of (render_from env s) = ?s"
    by (rule run(3))
  have again: "GetStatus (task_id s) \<in> set (requests_of (events_of
              (render env' (stored (session_of (render_from env s))))))"
    if "ctl_of (generate_panel env'
          (session_of (sidebar env' (session_of (render_from env s))))) = Continue" for env'
    using status_request_next_run [of "session_of (render_from env s)" env'] that t
    by (simp add: keep)
  show ?thesis
    using waiting terminal keep again by auto
qed

theorem auto_refresh_schedule_witness:
  "ctl_of (render_from (example_env (example_backend ''processing'')) example_session) = Rerun \<and>
   filter is_sleep (events_of
     (render_from (example_env (example_backend ''processing'')) example_session)) = [Sleep 3] \<and>
   last (events_of
     (render_from (example_env (example_backend ''processing'')) example_session)) = Sleep 3"
proof -
  let ?env = "example_env (example_backend ''processing'')"
  have sb: "session_of (sidebar ?env example_session) = example_session"
    by (simp add: session_of_sidebar)
  have g: "ctl_of (generate_panel ?env (session_of (sidebar ?env example_session))) = Continue"
    by (simp add: generate_panel_idle)
  have t: "truthy (task_id example_session)"
    by simp
  have b: "backend_at ?env AtStatusPanel (GetStatus (task_id example_session)) =
             Response 200 (Inr (progress_record ''processing''))"
    by (simp add: example_backend_def)
  have r: "read_progress (progress_record ''processing'') ''status'' (JStr ''unknown'') =
             Inr (JStr ''processing'')"
    by (simp add: read_progress_def progress_record_def)
  have n: "\<not> crashed (ctl_of (render_from ?env example_session))"
    unfolding render_from_reaching(2) [OF g] sb
    by (simp add: status_panel_example_processing)
  from auto_refresh_schedule [OF t g b r n]
  show ?thesis
    by simp
qed

text \<open>
  C6 as stated does not hold: with the status \<^verbatim>\<open>processing\<close> and the Refresh button
  pressed, the run reruns at once, without the delay of three seconds.
\<close>

theorem refresh_button_reruns_without_sleep:
  "poll_status
     (backend_at ((example_env (example_backend ''processing''))\<lparr>refresh_clicked := True\<rparr>)
        AtStatusPanel) (task_id example_session) = Inr (JStr ''processing'') \<and>
   ctl_of (render ((example_env (example_backend ''processing''))\<lparr>refresh_clicked := True\<rparr>)
     (stored example_session)) = Rerun \<and>
   filter is_sleep (events_of
     (render ((example_env (example_backend ''processing''))\<lparr>refresh_clicked := True\<rparr>)
        (stored example_session))) = []"
proof -
  let ?env = "(example_env (example_backend ''processing''))\<lparr>refresh_clicked := True\<rparr>"
  have sb: "session_of (sidebar ?env example_session) = example_session"
    by (simp add: session_of_sidebar)
  have g: "ctl_of (generate_panel ?env (session_of (sidebar ?env example_session))) = Continue"
    by (simp add: generate_panel_idle)
  have p: "poll_status (backend_at ?env AtStatusPanel) (task_id example_session) =
             Inr (JStr ''processing'')"
    by simp
  have c: "ctl_of (status_panel ?env example_session) = Rerun"
    by (simp add: status_panel_example_processing)
  have nc: "\<not> crashed (ctl_of (status_panel ?env example_session))"
    by (simp add: c)
  have w: "filter is_sleep (events_of (status_panel ?env example_session)) = []"
    using status_panel_waiting(2) [OF example_session_simps(2) p _ _ nc] by simp
  show ?thesis
    unfolding render_def init_session_stored render_from_reaching(1,2) [OF g] sb
    by (simp add: c w)
qed

section \<open>Rendering twice\<close>

text \<open>
  C4, as the script has it. Take a run with a task id that counts as true whose status
  panel reads \<^verbatim>\<open>completed\<close> or \<^verbatim>\<open>error\<close>. The next run, from the session this one
  leaves, with the same answers of the backend and the same widget values, shows the same
  page up to the time stamp in the file name of the download button, and exactly the
  same page when the clock gives the same stamp. Each of the two runs asks for the
  document once if the poll of the results section reads \<^verbatim>\<open>completed\<close>, and not at all
  otherwise.
\<close>

theorem terminal_runs_same_view_up_to_stamp:
  assumes "truthy (task_id s)"
    and "ctl_of (generate_panel env (session_of (sidebar env s))) = Continue"
    and "poll_status (backend_at env AtStatusPanel) (task_id s) = Inr st"
    and "st = JStr ''completed'' \<or> st = JStr ''error''"
  shows "map without_stamp (events_of
           (render (env\<lparr>now := t\<rparr>) (stored (session_of (render_from env s))))) =
           map without_stamp (events_of (render_from env s)) \<and>
         render env (stored (session_of (render_from env s))) = render_from env s \<and>
         session_of (render (env\<lparr>now := t\<rparr>) (stored (session_of (render_from env s)))) =
           session_of (render_from env s) \<and>
         filter is_download_request (requests_of (events_of (render_from env s))) =
           (if poll_status (backend_at env AtResults) (task_id s) = Inr (JStr ''completed'')
            then [GetDownload (task_id s)] else []) \<and>
         filter is_download_request (requests_of (events_of
           (render (env\<lparr>now := t\<rparr>) (stored (session_of (render_from env s)))))) =
           (if poll_status (backend_at env AtResults) (task_id s) = Inr (JStr ''completed'')
            then [GetDownload (task_id s)] else [])"
proof -
  let ?s' = "session_of (render_from env s)"
  note again = render_from_again [OF assms(2)]
  note dl = download_requests_terminal [OF assms]
  have view: "map without_stamp (events_of (render (env\<lparr>now := t\<rparr>) (stored ?s'))) =
                map without_stamp (events_of (render_from env s))"
    by (simp add: render_def now_render_from again)
  have same: "render env (stored ?s') = render_from env s"
    by (simp add: render_def again)
  have sess: "session_of (render (env\<lparr>now := t\<rparr>) (stored ?s')) = ?s'"
    by (simp add: render_def now_render_from again)
  have "requests_of (events_of (render (env\<lparr>now := t\<rparr>) (stored ?s'))) =
          requests_of (events_of (render_from env s))"
    using arg_cong [OF view, of requests_of] by simp
  then show ?thesis
    by (simp add: view same sess dl)
qed

theorem terminal_runs_same_view_up_to_stamp_witness:
  "render (example_env (example_backend ''completed''))
     (stored (session_of
        (render_from (example_env (example_backend ''completed'')) example_session))) =
     render_from (example_env (example_backend ''completed'')) example_session \<and>
   filter is_download_request (requests_of (events_of
     (render_from (example_env (example_backend ''completed'')) example_session))) =
     [GetDownload (JStr ''t1'')] \<and>
   filter is_download_request (requests_of (events_of
     (render ((example_env (example_backend ''completed''))\<lparr>now := ''20260101_120001''\<rparr>)
        (stored (session_of
           (render_from (example_env (example_backend ''completed'')) example_session)))))) =
     [GetDownload (JStr ''t1'')]"
proof -
  let ?env = "example_env (example_backend ''completed'')"
  have g: "ctl_of (generate_panel ?env (session_of (sidebar ?env example_session))) = Continue"
    by (simp add: generate_panel_idle)
  have t: "truthy (task_id example_session)"
    by simp
  have p: "poll_status (backend_at ?env AtStatusPanel) (task_id example_session) =
             Inr (JStr ''completed'')"
    by simp
  have c: "JStr ''completed'' = JStr ''completed'' \<or> JStr ''completed'' = JStr ''error''"
    by simp
  from terminal_runs_same_view_up_to_stamp [OF t g p c, of "''20260101_120001''"]
  show ?thesis
    by simp
qed

text \<open>
  C4 as stated does not hold: one second later the same poll result and the same
  document give a page with another file name on the download button.
\<close>

theorem later_run_shows_other_file_name:
  "events_of (render ((example_env (example_backend ''completed''))\<lparr>now := ''20260101_120001''\<rparr>)
     (stored (session_of
        (render (example_env (example_backend ''completed'')) (stored example_session))))) \<noteq>
   events_of (render (example_env (example_backend ''completed'')) (stored example_session))"
proof -
  let ?env = "example_env (example_backend ''completed'')"
  let ?env' = "?env\<lparr>now := ''20260101_120001''\<rparr>"
  have g: "ctl_of (generate_panel ?env (session_of (sidebar ?env example_session))) = Continue"
    by (simp add: generate_panel_idle)
  have s1: "session_of (render ?env (stored example_session)) = example_session"
    by (simp add: render_def render_from_reaching(3) [OF g] session_of_sidebar)
  have b1: "filter is_download_button (events_of (render ?env (stored example_session))) =
      [StDownloadButton (JStr ''# Widgets'')
         [Lit ''documentation_'', Lit ''20260101_120000'', Lit ''.md'']]"
    using buttons_run_example [of ?env] by simp
  have b2: "filter is_download_button (events_of (render ?env' (stored example_session))) =
      [StDownloadButton (JStr ''# Widgets'')
         [Lit ''documentation_'', Lit ''20260101_120001'', Lit ''.md'']]"
    using buttons_run_example [of ?env'] by simp
  show ?thesis
    unfolding s1
  proof
    assume "events_of (render ?env' (stored example_session)) =
            events_of (render ?env (stored example_session))"
    then have "filter is_download_button (events_of (render ?env' (stored example_session))) =
               filter is_download_button (events_of (render ?env (stored example_session)))"
      by simp
    then show False
      unfolding b1 b2 by simp
  qed
qed

end
